theory Spec2Isabelle
  imports Complex_Main
begin

section \<open>SnowFall.js: data model\<close>

text \<open>
  A shallow embedding of \<^verbatim>\<open>snowfall.js\<close>. JavaScript numbers are modelled as
  \<^typ>\<open>real\<close> (exact arithmetic, no NaN and no rounding); the two sources of
  nondeterminism, \<^verbatim>\<open>Math.random()\<close> and \<^verbatim>\<open>Date.now()\<close>, are streams that the
  code consumes one reading at a time. Mutation of \<^verbatim>\<open>this\<close> is explicit state passing.
\<close>

record world =
  rands :: "nat \<Rightarrow> real"  \<comment> \<open>the successive results of \<^verbatim>\<open>Math.random()\<close>\<close>
  clock :: "nat \<Rightarrow> real"  \<comment> \<open>the successive results of \<^verbatim>\<open>Date.now()\<close>\<close>

definition Math_random :: "world \<Rightarrow> real \<times> world" where
  "Math_random w = (rands w 0, w\<lparr>rands := (\<lambda>n. rands w (Suc n))\<rparr>)"

definition Date_now :: "world \<Rightarrow> real \<times> world" where
  "Date_now w = (clock w 0, w\<lparr>clock := (\<lambda>n. clock w (Suc n))\<rparr>)"

text \<open>\<^verbatim>\<open>Math.random()\<close> returns a number in \<open>[0, 1)\<close>.\<close>

definition unit_rands :: "world \<Rightarrow> bool" where
  "unit_rands w = (\<forall>n. 0 \<le> rands w n \<and> rands w n < 1)"

text \<open>The configuration object (\<^verbatim>\<open>DEFAULTS\<close> merged with the caller's options).
  \<^verbatim>\<open>flakeCount\<close> is an integer, of either sign; \<^verbatim>\<open>collectSelectors\<close> is an array.\<close>

record config =
  flakeCount :: int
  gravity :: real
  wind :: real
  sizeBase :: real
  stickiness :: real
  meltSpeed :: real
  collectSelectors :: "string list"
  mouseInteraction :: bool
  mouseRepulsionRadius :: real
  zIndex :: int

definition DEFAULTS :: config where
  "DEFAULTS = \<lparr>flakeCount = 400, gravity = 0.7, wind = 0.5, sizeBase = 3,
     stickiness = 0.9, meltSpeed = 0.005, collectSelectors = [],
     mouseInteraction = True, mouseRepulsionRadius = 150, zIndex = 99999\<rparr>"

text \<open>The caller's options: every key may be absent.\<close>

record options =
  opt_flakeCount :: "int option"
  opt_gravity :: "real option"
  opt_wind :: "real option"
  opt_sizeBase :: "real option"
  opt_stickiness :: "real option"
  opt_meltSpeed :: "real option"
  opt_collectSelectors :: "string list option"
  opt_mouseInteraction :: "bool option"
  opt_mouseRepulsionRadius :: "real option"
  opt_zIndex :: "int option"

definition no_options :: options where
  "no_options = \<lparr>opt_flakeCount = None, opt_gravity = None, opt_wind = None,
     opt_sizeBase = None, opt_stickiness = None, opt_meltSpeed = None,
     opt_collectSelectors = None, opt_mouseInteraction = None,
     opt_mouseRepulsionRadius = None, opt_zIndex = None\<rparr>"

text \<open>\<^verbatim>\<open>{ ...DEFAULTS, ...options }\<close>\<close>

definition merge_config :: "config \<Rightarrow> options \<Rightarrow> config" where
  "merge_config d opts =
     \<lparr>flakeCount = (case opt_flakeCount opts of None \<Rightarrow> flakeCount d | Some v \<Rightarrow> v),
      gravity = (case opt_gravity opts of None \<Rightarrow> gravity d | Some v \<Rightarrow> v),
      wind = (case opt_wind opts of None \<Rightarrow> wind d | Some v \<Rightarrow> v),
      sizeBase = (case opt_sizeBase opts of None \<Rightarrow> sizeBase d | Some v \<Rightarrow> v),
      stickiness = (case opt_stickiness opts of None \<Rightarrow> stickiness d | Some v \<Rightarrow> v),
      meltSpeed = (case opt_meltSpeed opts of None \<Rightarrow> meltSpeed d | Some v \<Rightarrow> v),
      collectSelectors =
        (case opt_collectSelectors opts of None \<Rightarrow> collectSelectors d | Some v \<Rightarrow> v),
      mouseInteraction =
        (case opt_mouseInteraction opts of None \<Rightarrow> mouseInteraction d | Some v \<Rightarrow> v),
      mouseRepulsionRadius =
        (case opt_mouseRepulsionRadius opts of None \<Rightarrow> mouseRepulsionRadius d | Some v \<Rightarrow> v),
      zIndex = (case opt_zIndex opts of None \<Rightarrow> zIndex d | Some v \<Rightarrow> v)\<rparr>"

text \<open>
  A \<^verbatim>\<open>Snowflake\<close>. The fields \<^verbatim>\<open>x\<close>, \<^verbatim>\<open>y\<close>, \<^verbatim>\<open>z\<close> and \<^verbatim>\<open>size\<close> are
  \<open>fx\<close>, \<open>fy\<close>, \<open>fz\<close> and \<open>fsize\<close> here; the back reference \<^verbatim>\<open>sys\<close> is the system
  passed to every operation.
\<close>

record flake =
  fz :: real
  fsize :: real
  fx :: real
  fy :: real
  vy :: real
  vx :: real
  alpha :: real
  meltAlpha :: real
  landed :: bool
  stackOffset :: real

text \<open>An entry of \<^verbatim>\<open>this.obstacles\<close>: \<^verbatim>\<open>{left, right, top, width}\<close>.\<close>

record obstacle =
  obs_left :: real
  obs_right :: real
  obs_top :: real
  obs_width :: real

text \<open>The \<^verbatim>\<open>canvas\<close> element the system creates, with the attributes the code sets.\<close>

record canvas =
  canvas_width :: real
  canvas_height :: real
  canvas_zIndex :: int

text \<open>
  The \<^verbatim>\<open>SnowSystem\<close> object. \<open>mouse\<close> is the pair \<^verbatim>\<open>(mouse.x, mouse.y)\<close>. The last
  four fields record the system's effects on the page: the canvases appended to
  \<^verbatim>\<open>document.body\<close> and the event listeners registered on \<^verbatim>\<open>window\<close>.
\<close>

record SnowSystem =
  config :: config
  flakes :: "flake list"
  obstacles :: "obstacle list"
  canvas :: "canvas option"
  width :: real
  height :: real
  mouse :: "real \<times> real"
  isRunning :: bool
  appended :: nat
  resizeListener :: bool
  scrollListener :: bool
  mousemoveListener :: bool

text \<open>The constructor. Its \<^verbatim>\<open>config = {}\<close> has no keys; no field of it is read before
  \<^verbatim>\<open>init\<close> replaces it, and the model starts it at \<open>DEFAULTS\<close>.\<close>

definition SnowSystem_new :: SnowSystem where
  "SnowSystem_new = \<lparr>config = DEFAULTS, flakes = [], obstacles = [], canvas = None,
     width = 0, height = 0, mouse = (-999, -999), isRunning = False,
     appended = 0, resizeListener = False, scrollListener = False,
     mousemoveListener = False\<rparr>"

section \<open>Snowflake\<close>

text \<open>
  \<^verbatim>\<open>Snowflake.init(isNew)\<close>. Every field is assigned, so the result does not depend on
  the flake's previous contents. The draws are taken in the source's order:
  \<^verbatim>\<open>z\<close>, \<^verbatim>\<open>x\<close>, \<^verbatim>\<open>y\<close> (only when \<^verbatim>\<open>isNew\<close> is false), \<^verbatim>\<open>vy\<close>, \<^verbatim>\<open>vx\<close>,
  \<^verbatim>\<open>stackOffset\<close>.
\<close>

definition init_flake :: "SnowSystem \<Rightarrow> bool \<Rightarrow> world \<Rightarrow> flake \<times> world" where
  "init_flake sys isNew w0 =
     (let (r1, w1) = Math_random w0;
          z' = r1 * 0.9 + 0.1;
          size' = sizeBase (config sys) * z';
          (r2, w2) = Math_random w1;
          x' = r2 * width sys;
          (y', w3) = (if isNew then (-20, w2)
                      else (let (r3, w) = Math_random w2 in (r3 * height sys, w)));
          (r4, w4) = Math_random w3;
          vy' = gravity (config sys) * z' + r4 * 0.5;
          (r5, w5) = Math_random w4;
          vx' = (r5 - 0.5) * 0.5;
          (r6, w6) = Math_random w5
      in (\<lparr>fz = z', fsize = size', fx = x', fy = y', vy = vy', vx = vx',
           alpha = 1.0, meltAlpha = 1.0, landed = False, stackOffset = r6 * 4\<rparr>, w6))"

text \<open>\<^verbatim>\<open>Math.atan2(y, x)\<close> on reals (signed zeros do not exist here).\<close>

definition atan2 :: "real \<Rightarrow> real \<Rightarrow> real" where
  "atan2 b a =
     (if 0 < a then arctan (b / a)
      else if a < 0 then (if 0 \<le> b then arctan (b / a) + pi else arctan (b / a) - pi)
      else if 0 < b then pi / 2
      else if b < 0 then - pi / 2
      else 0)"

text \<open>Section 2 of \<^verbatim>\<open>update\<close>, "Movement": wind and drift. \<open>now\<close> is the reading of
  \<^verbatim>\<open>Date.now()\<close>.\<close>

definition movement :: "SnowSystem \<Rightarrow> flake \<Rightarrow> real \<Rightarrow> real \<times> real" where
  "movement sys f now =
     (let conf = config sys;
          dx = vx f + wind conf * fz f;
          dx = dx + sin (fy f * 0.01 + now * 0.002) * 0.5 * fz f;
          dy = vy f
      in (dx, dy))"

text \<open>Section 3, "Mouse Interaction": the repulsion added to the frame's \<open>(dx, dy)\<close>.\<close>

definition mouse_interaction :: "SnowSystem \<Rightarrow> flake \<Rightarrow> real \<times> real \<Rightarrow> real \<times> real" where
  "mouse_interaction sys f d =
     (let conf = config sys; (dx, dy) = d in
      if mouseInteraction conf then
        (let distX = fx f - fst (mouse sys);
             distY = fy f - snd (mouse sys);
             dist = sqrt (distX * distX + distY * distY)
         in if dist < mouseRepulsionRadius conf then
              (let force = (mouseRepulsionRadius conf - dist) / mouseRepulsionRadius conf;
                   angle = atan2 distY distX
               in (dx + cos angle * force * 5 * fz f, dy + sin angle * force * 5 * fz f))
            else (dx, dy))
      else (dx, dy))"

text \<open>\<^verbatim>\<open>this.x += dx; this.y += dy\<close>\<close>

definition integrate :: "SnowSystem \<Rightarrow> flake \<Rightarrow> real \<Rightarrow> flake" where
  "integrate sys f now =
     (let (dx, dy) = mouse_interaction sys f (movement sys f now)
      in f\<lparr>fx := fx f + dx, fy := fy f + dy\<rparr>)"

text \<open>Section 4, "Wrapping": the two horizontal tests, one after the other, then the
  respawn below the bottom edge.\<close>

definition wrap_x :: "SnowSystem \<Rightarrow> flake \<Rightarrow> flake" where
  "wrap_x sys f =
     (let f1 = (if fx f > width sys + 5 then f\<lparr>fx := -5\<rparr> else f)
      in if fx f1 < -5 then f1\<lparr>fx := width sys + 5\<rparr> else f1)"

definition wrapping :: "SnowSystem \<Rightarrow> flake \<Rightarrow> world \<Rightarrow> flake \<times> world" where
  "wrapping sys f w =
     (let f2 = wrap_x sys f
      in if fy f2 > height sys then init_flake sys True w else (f2, w))"

text \<open>Section 5, "Collision Detection". The tests of the loop body, named:\<close>

definition in_span :: "obstacle \<Rightarrow> flake \<Rightarrow> bool" where
  "in_span obs f = (fx f > obs_left obs \<and> fx f < obs_right obs)"

definition landY :: "obstacle \<Rightarrow> flake \<Rightarrow> real" where
  "landY obs f = obs_top obs - fsize f * 0.5 + stackOffset f"

definition in_window :: "obstacle \<Rightarrow> flake \<Rightarrow> bool" where
  "in_window obs f = (fy f \<ge> landY obs f \<and> fy f \<le> landY obs f + 10)"

text \<open>One pass of the body of \<^verbatim>\<open>for (let obs of this.sys.obstacles)\<close>. There is no
  \<^verbatim>\<open>break\<close>: the loop goes on after a landing.\<close>

definition collision_step :: "config \<Rightarrow> flake \<times> world \<Rightarrow> obstacle \<Rightarrow> flake \<times> world" where
  "collision_step conf s obs =
     (let (f, w) = s in
      if in_span obs f then
        (if in_window obs f then
           (let (r, w') = Math_random w in
            if r < stickiness conf then (f\<lparr>landed := True, fy := landY obs f\<rparr>, w')
            else (f, w'))
         else (f, w))
      else (f, w))"

definition collide :: "config \<Rightarrow> obstacle list \<Rightarrow> flake \<Rightarrow> world \<Rightarrow> flake \<times> world" where
  "collide conf obss f w = foldl (collision_step conf) (f, w) obss"

definition collision :: "SnowSystem \<Rightarrow> flake \<Rightarrow> world \<Rightarrow> flake \<times> world" where
  "collision sys f w =
     (if fz f > 0.4 then collide (config sys) (obstacles sys) f w else (f, w))"

text \<open>\<^verbatim>\<open>Snowflake.update()\<close>\<close>

definition update :: "SnowSystem \<Rightarrow> flake \<Rightarrow> world \<Rightarrow> flake \<times> world" where
  "update sys f w =
     (if landed f then
        (let f1 = f\<lparr>meltAlpha := meltAlpha f - meltSpeed (config sys)\<rparr>
         in if meltAlpha f1 \<le> 0 then init_flake sys True w else (f1, w))
      else
        (let (now, w1) = Date_now w;
             f2 = integrate sys f now;
             (f3, w2) = wrapping sys f2 w1
         in collision sys f3 w2))"

section \<open>SnowSystem\<close>

text \<open>
  What the system reads from the browser: the window's inner size, the elements a
  selector matches (\<open>None\<close> when \<^verbatim>\<open>querySelectorAll\<close> throws on an invalid selector;
  elements are identified by a number) and each element's bounding rectangle.
\<close>

record rect =
  rect_left :: real
  rect_right :: real
  rect_top :: real
  rect_bottom :: real
  rect_width :: real

record page =
  innerWidth :: real
  innerHeight :: real
  querySelectorAll :: "string \<Rightarrow> nat list option"
  getBoundingClientRect :: "nat \<Rightarrow> rect"

text \<open>\<^verbatim>\<open>createCanvas()\<close>: a new canvas (300 by 150 until \<^verbatim>\<open>resize\<close> sets its size) is
  appended to the document.\<close>

definition createCanvas :: "SnowSystem \<Rightarrow> SnowSystem" where
  "createCanvas sys =
     sys\<lparr>canvas := Some \<lparr>canvas_width = 300, canvas_height = 150,
                          canvas_zIndex = zIndex (config sys)\<rparr>,
         appended := Suc (appended sys)\<rparr>"

definition bindEvents :: "SnowSystem \<Rightarrow> SnowSystem" where
  "bindEvents sys =
     (let s1 = sys\<lparr>resizeListener := True\<rparr>;
          s2 = s1\<lparr>scrollListener := True\<rparr>
      in if mouseInteraction (config s2) then s2\<lparr>mousemoveListener := True\<rparr> else s2)"

text \<open>\<^verbatim>\<open>elements.add(el)\<close> on a JavaScript \<^verbatim>\<open>Set\<close>: insertion order, no duplicates.\<close>

definition set_add :: "nat list \<Rightarrow> nat \<Rightarrow> nat list" where
  "set_add elements el = (if el \<in> set elements then elements else elements @ [el])"

definition updateObstacles :: "SnowSystem \<Rightarrow> page \<Rightarrow> SnowSystem" where
  "updateObstacles sys pg =
     (if collectSelectors (config sys) = [] then sys\<lparr>obstacles := []\<rparr>
      else
        (let elements =
               foldl (\<lambda>elements selector.
                        case querySelectorAll pg selector of
                          None \<Rightarrow> elements
                        | Some found \<Rightarrow> foldl set_add elements found)
                     [] (collectSelectors (config sys))
         in sys\<lparr>obstacles :=
                  List.map_filter
                    (\<lambda>el. let r = getBoundingClientRect pg el in
                          if rect_bottom r < 0 \<or> rect_top r > height sys then None
                          else Some \<lparr>obs_left = rect_left r, obs_right = rect_right r,
                                     obs_top = rect_top r, obs_width = rect_width r\<rparr>)
                    elements\<rparr>))"

text \<open>\<^verbatim>\<open>resize()\<close> runs only after \<^verbatim>\<open>createCanvas()\<close> (from \<^verbatim>\<open>init\<close> and from the
  listener \<^verbatim>\<open>init\<close> registers), so the canvas exists.\<close>

definition resize :: "SnowSystem \<Rightarrow> page \<Rightarrow> SnowSystem" where
  "resize sys pg =
     (let s1 = sys\<lparr>canvas := map_option (\<lambda>c. c\<lparr>canvas_width := innerWidth pg\<rparr>) (canvas sys),
                   width := innerWidth pg\<rparr>;
          s2 = s1\<lparr>canvas := map_option (\<lambda>c. c\<lparr>canvas_height := innerHeight pg\<rparr>) (canvas s1),
                  height := innerHeight pg\<rparr>
      in updateObstacles s2 pg)"

text \<open>\<^verbatim>\<open>spawnFlakes()\<close>: the \<^verbatim>\<open>for\<close> loop from \<open>i\<close>, pushing
  \<^verbatim>\<open>new Snowflake(this, false)\<close>.\<close>

function spawn_loop :: "SnowSystem \<Rightarrow> int \<Rightarrow> flake list \<Rightarrow> world \<Rightarrow> flake list \<times> world" where
  "spawn_loop sys i fs w =
     (if i < flakeCount (config sys) then
        (let (f, w') = init_flake sys False w in spawn_loop sys (i + 1) (fs @ [f]) w')
      else (fs, w))"
  by pat_completeness auto
termination
  by (relation "measure (\<lambda>(sys, i, fs, w). nat (flakeCount (config sys) - i))") auto

definition spawnFlakes :: "SnowSystem \<Rightarrow> world \<Rightarrow> SnowSystem \<times> world" where
  "spawnFlakes sys w =
     (let (fs, w') = spawn_loop sys 0 [] w in (sys\<lparr>flakes := fs\<rparr>, w'))"

text \<open>\<^verbatim>\<open>this.flakes.forEach(flake => { flake.update(); flake.draw(); })\<close>. Drawing reads
  the flake and writes to the canvas only.\<close>

fun update_all :: "SnowSystem \<Rightarrow> flake list \<Rightarrow> world \<Rightarrow> flake list \<times> world" where
  "update_all sys [] w = ([], w)"
| "update_all sys (f # fs) w =
     (let (f', w1) = update sys f w;
          (fs', w2) = update_all sys fs w1
      in (f' # fs', w2))"

text \<open>One run of \<^verbatim>\<open>loop()\<close>; the next one is scheduled with
  \<^verbatim>\<open>requestAnimationFrame\<close> and arrives as the event \<open>Frame\<close> below.\<close>

definition loop :: "SnowSystem \<Rightarrow> world \<Rightarrow> SnowSystem \<times> world" where
  "loop sys w = (let (fs, w') = update_all sys (flakes sys) w in (sys\<lparr>flakes := fs\<rparr>, w'))"

text \<open>\<^verbatim>\<open>SnowSystem.init(options)\<close>\<close>

definition SnowSystem_init ::
  "SnowSystem \<Rightarrow> options \<Rightarrow> page \<Rightarrow> world \<Rightarrow> SnowSystem \<times> world" where
  "SnowSystem_init sys opts pg w =
     (if isRunning sys then (sys, w)
      else
        (let s1 = sys\<lparr>config := merge_config DEFAULTS opts\<rparr>;
             s2 = createCanvas s1;
             s3 = bindEvents s2;
             s4 = resize s3 pg;
             (s5, w1) = spawnFlakes s4 w;
             (s6, w2) = loop s5 w1
         in (s6\<lparr>isRunning := True\<rparr>, w2)))"

text \<open>
  What happens to the system after its construction: a call of \<^verbatim>\<open>init\<close>, an animation
  frame (scheduled only once \<^verbatim>\<open>loop\<close> has run, that is after \<^verbatim>\<open>init\<close>), and the window
  events, which reach the system only through the listeners it registered.
\<close>

datatype event =
    Init options page
  | Frame
  | Resize page
  | Scroll page
  | MouseMove real real

fun dispatch :: "SnowSystem \<times> world \<Rightarrow> event \<Rightarrow> SnowSystem \<times> world" where
  "dispatch (sys, w) (Init opts pg) = SnowSystem_init sys opts pg w"
| "dispatch (sys, w) Frame = (if isRunning sys then loop sys w else (sys, w))"
| "dispatch (sys, w) (Resize pg) = (if resizeListener sys then (resize sys pg, w) else (sys, w))"
| "dispatch (sys, w) (Scroll pg) =
     (if scrollListener sys then (updateObstacles sys pg, w) else (sys, w))"
| "dispatch (sys, w) (MouseMove clientX clientY) =
     (if mousemoveListener sys then (sys\<lparr>mouse := (clientX, clientY)\<rparr>, w) else (sys, w))"

definition run :: "event list \<Rightarrow> world \<Rightarrow> SnowSystem \<times> world" where
  "run evs w = foldl dispatch (SnowSystem_new, w) evs"

section \<open>Concrete inputs\<close>

text \<open>A running system on an 800 by 600 window with the default configuration, a
  random source that always returns one half, and a clock.\<close>

definition demo_world :: world where
  "demo_world = \<lparr>rands = (\<lambda>n. 1 / 2), clock = (\<lambda>n. 1700000000000)\<rparr>"

definition demo_sys :: SnowSystem where
  "demo_sys = \<lparr>config = DEFAULTS, flakes = [], obstacles = [],
     canvas = Some \<lparr>canvas_width = 800, canvas_height = 600, canvas_zIndex = 99999\<rparr>,
     width = 800, height = 600, mouse = (-999, -999), isRunning = True,
     appended = 1, resizeListener = True, scrollListener = True,
     mousemoveListener = True\<rparr>"

definition demo_page :: page where
  "demo_page = \<lparr>innerWidth = 800, innerHeight = 600, querySelectorAll = (\<lambda>s. Some []),
     getBoundingClientRect = (\<lambda>el. \<lparr>rect_left = 0, rect_right = 0, rect_top = 0,
                                      rect_bottom = 0, rect_width = 0\<rparr>)\<rparr>"

text \<open>A landed flake one step before the end of its melting.\<close>

definition melting_flake :: flake where
  "melting_flake = \<lparr>fz = 0.5, fsize = 1.5, fx = 100, fy = 300, vy = 0.6, vx = 0,
     alpha = 1, meltAlpha = 0.003, landed = True, stackOffset = 2\<rparr>"

text \<open>A falling flake just above the bottom edge of the 600 high window.\<close>

definition bottom_flake :: flake where
  "bottom_flake = \<lparr>fz = 0.5, fsize = 1.5, fx = 100, fy = 599.8, vy = 0.6, vx = 0,
     alpha = 1, meltAlpha = 1, landed = False, stackOffset = 2\<rparr>"

text \<open>The system with one obstacle: an element whose top edge is 25 above the top of
  the window (its lower part is visible).\<close>

definition header_sys :: SnowSystem where
  "header_sys = demo_sys\<lparr>obstacles :=
     [\<lparr>obs_left = 300, obs_right = 500, obs_top = -25, obs_width = 200\<rparr>]\<rparr>"

text \<open>The system configured with \<^verbatim>\<open>mouseInteraction: false\<close>.\<close>

definition quiet_sys :: SnowSystem where
  "quiet_sys = demo_sys\<lparr>config := DEFAULTS\<lparr>mouseInteraction := False\<rparr>,
     mousemoveListener := False\<rparr>"










text \<open>The random source after \<open>n\<close> more draws.\<close>

definition skip :: "nat \<Rightarrow> world \<Rightarrow> world" where
  "skip n w = w\<lparr>rands := (\<lambda>k. rands w (k + n))\<rparr>"


text \<open>The options \<^verbatim>\<open>{ flakeCount: 1 }\<close>.\<close>

definition one_flake :: options where
  "one_flake = no_options\<lparr>opt_flakeCount := Some 1\<rparr>"

text \<open>The invariant of a flake: \<^verbatim>\<open>z\<close> in range and \<^verbatim>\<open>size\<close> consistent with it.\<close>

definition depth_ok :: "config \<Rightarrow> flake \<Rightarrow> bool" where
  "depth_ok c f = (0.1 \<le> fz f \<and> fz f < 1 \<and> fsize f = sizeBase c * fz f)"







section \<open>Basic facts\<close>

lemma unit_rands_Math_random: "unit_rands w \<Longrightarrow> unit_rands (snd (Math_random w))"
  by (simp add: unit_rands_def Math_random_def)

lemma unit_rands_Date_now: "unit_rands (snd (Date_now w)) = unit_rands w"
  by (simp add: unit_rands_def Date_now_def)

lemma Math_random_range:
  "unit_rands w \<Longrightarrow> 0 \<le> fst (Math_random w) \<and> fst (Math_random w) < 1"
  by (simp add: unit_rands_def Math_random_def)

text \<open>\<^verbatim>\<open>init(true)\<close> in closed form: the five draws it takes, in order.\<close>

lemma init_flake_True:
  "init_flake sys True w =
     (\<lparr>fz = rands w 0 * 0.9 + 0.1,
       fsize = sizeBase (config sys) * (rands w 0 * 0.9 + 0.1),
       fx = rands w 1 * width sys,
       fy = -20,
       vy = gravity (config sys) * (rands w 0 * 0.9 + 0.1) + rands w 2 * 0.5,
       vx = (rands w 3 - 0.5) * 0.5,
       alpha = 1, meltAlpha = 1, landed = False,
       stackOffset = rands w 4 * 4\<rparr>,
      w\<lparr>rands := (\<lambda>n. rands w (n + 5))\<rparr>)"
  by (simp add: init_flake_def Math_random_def Let_def eval_nat_numeral)

text \<open>\<^verbatim>\<open>init(false)\<close> takes a sixth draw, the third one, for \<^verbatim>\<open>y\<close>.\<close>

lemma init_flake_False:
  "init_flake sys False w =
     (\<lparr>fz = rands w 0 * 0.9 + 0.1,
       fsize = sizeBase (config sys) * (rands w 0 * 0.9 + 0.1),
       fx = rands w 1 * width sys,
       fy = rands w 2 * height sys,
       vy = gravity (config sys) * (rands w 0 * 0.9 + 0.1) + rands w 3 * 0.5,
       vx = (rands w 4 - 0.5) * 0.5,
       alpha = 1, meltAlpha = 1, landed = False,
       stackOffset = rands w 5 * 4\<rparr>,
      w\<lparr>rands := (\<lambda>n. rands w (n + 6))\<rparr>)"
  by (simp add: init_flake_def Math_random_def Let_def eval_nat_numeral)

lemma unit_rands_init_flake: "unit_rands w \<Longrightarrow> unit_rands (snd (init_flake sys isNew w))"
  by (cases isNew) (simp_all add: init_flake_True init_flake_False unit_rands_def)

lemma unit_rands_demo_world: "unit_rands demo_world"
  by (simp add: unit_rands_def demo_world_def)

section \<open>Melting\<close>

text \<open>
  C2, as the code has it: a landed flake whose \<^verbatim>\<open>meltAlpha\<close> is still positive after
  this frame's decrement keeps every field but \<^verbatim>\<open>meltAlpha\<close>, which decreases by
  exactly \<^verbatim>\<open>meltSpeed\<close>; no random number and no clock reading is consumed.
\<close>

theorem landed_melts:
  "landed f \<Longrightarrow> 0 < meltAlpha f - meltSpeed (config sys) \<Longrightarrow>
   update sys f w = (f\<lparr>meltAlpha := meltAlpha f - meltSpeed (config sys)\<rparr>, w)"
  by (simp add: update_def Let_def)

theorem landed_melts_witness:
  "landed (melting_flake\<lparr>meltAlpha := 1\<rparr>) \<and>
   0 < meltAlpha (melting_flake\<lparr>meltAlpha := 1\<rparr>) - meltSpeed (config demo_sys) \<and>
   update demo_sys (melting_flake\<lparr>meltAlpha := 1\<rparr>) demo_world =
     (melting_flake\<lparr>meltAlpha := 0.995\<rparr>, demo_world)"
  using landed_melts [of "melting_flake\<lparr>meltAlpha := 1\<rparr>" demo_sys demo_world]
  by (simp add: melting_flake_def demo_sys_def DEFAULTS_def)

text \<open>
  C2 as stated fails on the last melting frame: a landed flake at \<open>(100, 300)\<close> with
  \<^verbatim>\<open>meltAlpha = 0.003 > 0\<close> and \<^verbatim>\<open>meltSpeed = 0.005\<close> is respawned by this very
  update: it moves to \<open>(400, -20)\<close>, \<^verbatim>\<open>meltAlpha\<close> goes up to 1 and it is no longer
  landed.
\<close>

theorem last_melt_step_respawns:
  "landed melting_flake \<and> 0 < meltAlpha melting_flake \<and>
   fx melting_flake = 100 \<and> fy melting_flake = 300 \<and>
   fx (fst (update demo_sys melting_flake demo_world)) = 400 \<and>
   fy (fst (update demo_sys melting_flake demo_world)) = -20 \<and>
   meltAlpha (fst (update demo_sys melting_flake demo_world)) = 1 \<and>
   \<not> landed (fst (update demo_sys melting_flake demo_world))"
  by (simp add: update_def Let_def init_flake_True melting_flake_def demo_sys_def
      DEFAULTS_def demo_world_def)

section \<open>Starting twice\<close>

lemma isRunning_SnowSystem_init: "isRunning (fst (SnowSystem_init sys opts pg w))"
  by (simp add: SnowSystem_init_def Let_def split_def)

text \<open>
  C6: \<^verbatim>\<open>init\<close> on a running system returns at once. The whole system (configuration,
  flakes, obstacles, canvas, size, mouse, listeners, the count of canvases appended to
  the page) and the random source and clock are unchanged.
\<close>

theorem start_while_running:
  "isRunning sys \<Longrightarrow> SnowSystem_init sys opts pg w = (sys, w)"
  by (simp add: SnowSystem_init_def)

theorem start_while_running_witness:
  "isRunning demo_sys \<and>
   SnowSystem_init demo_sys (no_options\<lparr>opt_flakeCount := Some 7\<rparr>) demo_page demo_world =
     (demo_sys, demo_world)"
  using start_while_running
    [of demo_sys "no_options\<lparr>opt_flakeCount := Some 7\<rparr>" demo_page demo_world]
  by (simp add: demo_sys_def)

section \<open>Pieces of \<^verbatim>\<open>update\<close>\<close>

lemma mouse_interaction_disabled:
  "\<not> mouseInteraction (config sys) \<Longrightarrow> mouse_interaction sys f d = d"
  by (simp add: mouse_interaction_def Let_def split_def)

lemma abs_le_dist: "\<bar>a\<bar> \<le> sqrt (a * a + b * b)"
proof -
  have "\<bar>a\<bar> = sqrt (a * a)" by simp
  also have "\<dots> \<le> sqrt (a * a + b * b)" by (rule real_sqrt_le_mono) simp
  finally show ?thesis .
qed

text \<open>A flake whose horizontal distance from the mouse is at least the radius is not
  repelled.\<close>

lemma mouse_interaction_far:
  "mouseRepulsionRadius (config sys) \<le> \<bar>fx f - fst (mouse sys)\<bar> \<Longrightarrow>
   mouse_interaction sys f d = d"
  using abs_le_dist [of "fx f - fst (mouse sys)" "fy f - snd (mouse sys)"]
  by (simp add: mouse_interaction_def Let_def split_def)

lemma fy_wrap_x: "fy (wrap_x sys f) = fy f"
  by (simp add: wrap_x_def Let_def)

lemma integrate_far:
  "mouseRepulsionRadius (config sys) \<le> \<bar>fx f - fst (mouse sys)\<bar> \<Longrightarrow>
   integrate sys f now =
     f\<lparr>fx := fx f + fst (movement sys f now), fy := fy f + vy f\<rparr>"
  by (simp add: integrate_def mouse_interaction_far split_def) (simp add: movement_def Let_def)

text \<open>Reading the clock does not touch the random source.\<close>

lemma init_flake_Date_now:
  "init_flake sys isNew (snd (Date_now w)) =
   (fst (init_flake sys isNew w), snd (Date_now (snd (init_flake sys isNew w))))"
  by (cases isNew) (simp_all add: init_flake_True init_flake_False Date_now_def)

lemma update_melted:
  "landed f \<Longrightarrow> meltAlpha f - meltSpeed (config sys) \<le> 0 \<Longrightarrow>
   update sys f w = init_flake sys True w"
  by (simp add: update_def Let_def)

lemma update_below_bottom:
  "\<not> landed f \<Longrightarrow> height sys < fy (integrate sys f (clock w 0)) \<Longrightarrow>
   update sys f w =
     collision sys (fst (init_flake sys True (snd (Date_now w))))
                   (snd (init_flake sys True (snd (Date_now w))))"
  by (simp add: update_def wrapping_def fy_wrap_x Let_def split_def) (simp add: Date_now_def)

text \<open>The flake \<open>bottom_flake\<close> crosses the bottom edge of \<open>header_sys\<close>, is respawned at
  \<open>(400, -20)\<close> and lands in the same call on the obstacle whose top is at \<open>-25\<close>.\<close>

lemma bottom_flake_lands:
  "\<not> landed bottom_flake \<and>
   height header_sys < fy (integrate header_sys bottom_flake (clock demo_world 0)) \<and>
   landed (fst (update header_sys bottom_flake demo_world)) \<and>
   fy (fst (update header_sys bottom_flake demo_world)) = -23.825"
proof -
  have far: "mouseRepulsionRadius (config header_sys)
      \<le> \<bar>fx bottom_flake - fst (mouse header_sys)\<bar>"
    by (simp add: header_sys_def demo_sys_def DEFAULTS_def bottom_flake_def)
  have below: "height header_sys < fy (integrate header_sys bottom_flake (clock demo_world 0))"
    by (simp add: integrate_far [OF far]) (simp add: header_sys_def demo_sys_def bottom_flake_def)
  have nl: "\<not> landed bottom_flake" by (simp add: bottom_flake_def)
  have "update header_sys bottom_flake demo_world =
     (\<lparr>fz = 0.55, fsize = 1.65, fx = 400, fy = -23.825, vy = 0.635, vx = 0,
       alpha = 1, meltAlpha = 1, landed = True, stackOffset = 2\<rparr>,
      demo_world\<lparr>rands := (\<lambda>n. 1/2), clock := (\<lambda>n. 1700000000000)\<rparr>)"
    by (simp add: update_below_bottom [OF nl below] init_flake_True Date_now_def)
       (simp add: collision_def collide_def collision_step_def in_span_def in_window_def
          landY_def Math_random_def header_sys_def demo_sys_def DEFAULTS_def demo_world_def)
  with nl below show ?thesis by simp
qed

section \<open>Respawn\<close>

lemma new_spawn_ranges:
  assumes "unit_rands w"
  shows "1 / 10 \<le> fz (fst (init_flake sys True w))"
    and "fz (fst (init_flake sys True w)) < 1"
    and "0 \<le> width sys \<Longrightarrow> 0 \<le> fx (fst (init_flake sys True w))"
    and "0 \<le> width sys \<Longrightarrow> fx (fst (init_flake sys True w)) \<le> width sys"
    and "0 < width sys \<Longrightarrow> fx (fst (init_flake sys True w)) < width sys"
    and "- (1 / 4) \<le> vx (fst (init_flake sys True w))"
    and "vx (fst (init_flake sys True w)) < 1 / 4"
    and "0 \<le> stackOffset (fst (init_flake sys True w))"
    and "stackOffset (fst (init_flake sys True w)) < 4"
proof -
  have r: "0 \<le> rands w n" "rands w n < 1" for n
    using assms by (simp_all add: unit_rands_def)
  show "1 / 10 \<le> fz (fst (init_flake sys True w))"
    using r [of 0] by (simp add: init_flake_True)
  show "fz (fst (init_flake sys True w)) < 1"
    using r [of 0] by (simp add: init_flake_True)
  show "0 \<le> fx (fst (init_flake sys True w))" if "0 \<le> width sys"
    using r [of 1] that by (simp add: init_flake_True)
  show "fx (fst (init_flake sys True w)) \<le> width sys" if "0 \<le> width sys"
    using r [of 1] that by (simp add: init_flake_True mult_left_le_one_le)
  show "fx (fst (init_flake sys True w)) < width sys" if "0 < width sys"
    using r [of 1] that by (simp add: init_flake_True)
  show "- (1 / 4) \<le> vx (fst (init_flake sys True w))"
    using r [of 3] by (simp add: init_flake_True)
  show "vx (fst (init_flake sys True w)) < 1 / 4"
    using r [of 3] by (simp add: init_flake_True)
  show "0 \<le> stackOffset (fst (init_flake sys True w))"
    using r [of 4] by (simp add: init_flake_True)
  show "stackOffset (fst (init_flake sys True w)) < 4"
    using r [of 4] by (simp add: init_flake_True)
qed

text \<open>
  C1: both respawns call \<^verbatim>\<open>init(true)\<close>. When a landed flake's \<^verbatim>\<open>meltAlpha\<close> reaches
  \<open>0\<close> or less, the update returns the new spawn \<open>g\<close>; when a falling flake's \<^verbatim>\<open>y\<close>
  exceeds the bottom edge, the rest of the update (the collision check) runs on the new
  spawn \<open>g\<close>. With \<open>r0, r1, ...\<close> the next results of \<^verbatim>\<open>Math.random()\<close>, each in
  \<open>[0, 1)\<close>, the new spawn has \<open>y = -20\<close>, \<open>z = r0 * 0.9 + 0.1\<close> in \<open>[0.1, 1)\<close>,
  \<open>size = sizeBase * z\<close>, \<open>x = r1 * width\<close> (within the width),
  \<open>vy = gravity * z + r2 * 0.5\<close>, \<open>vx = (r3 - 0.5) * 0.5\<close> in \<open>[-0.25, 0.25)\<close>,
  \<open>alpha = meltAlpha = 1\<close>, \<open>landed = false\<close> and \<open>stackOffset = r4 * 4\<close> in \<open>[0, 4)\<close>.
\<close>

theorem respawn_is_new_spawn:
  assumes "unit_rands w" and "g = fst (init_flake sys True w)"
  shows "(landed f \<and> meltAlpha f - meltSpeed (config sys) \<le> 0 \<longrightarrow>
            fst (update sys f w) = g) \<and>
         (\<not> landed f \<and> height sys < fy (integrate sys f (clock w 0)) \<longrightarrow>
            update sys f w = collision sys g (snd (init_flake sys True (snd (Date_now w))))) \<and>
         fy g = -20 \<and>
         fz g = rands w 0 * 0.9 + 0.1 \<and> 0.1 \<le> fz g \<and> fz g < 1.0 \<and>
         fsize g = sizeBase (config sys) * fz g \<and>
         fx g = rands w 1 * width sys \<and>
         (0 \<le> width sys \<longrightarrow> 0 \<le> fx g \<and> fx g \<le> width sys) \<and>
         (0 < width sys \<longrightarrow> fx g < width sys) \<and>
         vy g = gravity (config sys) * fz g + rands w 2 * 0.5 \<and>
         0 \<le> rands w 2 * 0.5 \<and> rands w 2 * 0.5 < 0.5 \<and>
         vx g = (rands w 3 - 0.5) * 0.5 \<and> -0.25 \<le> vx g \<and> vx g < 0.25 \<and>
         alpha g = 1.0 \<and> meltAlpha g = 1.0 \<and> \<not> landed g \<and>
         stackOffset g = rands w 4 * 4 \<and> 0 \<le> stackOffset g \<and> stackOffset g < 4"
proof -
  have melt: "landed f \<and> meltAlpha f - meltSpeed (config sys) \<le> 0 \<longrightarrow>
      fst (update sys f w) = g"
    by (simp add: update_melted assms(2))
  have bottom: "\<not> landed f \<and> height sys < fy (integrate sys f (clock w 0)) \<longrightarrow>
      update sys f w = collision sys g (snd (init_flake sys True (snd (Date_now w))))"
    by (simp add: update_below_bottom assms(2) init_flake_Date_now)
  have r2: "0 \<le> rands w 2 * 0.5 \<and> rands w 2 * 0.5 < 0.5"
    using assms(1) by (simp add: unit_rands_def)
  have fields: "fy g = -20 \<and> fz g = rands w 0 * 0.9 + 0.1 \<and>
      fsize g = sizeBase (config sys) * fz g \<and> fx g = rands w 1 * width sys \<and>
      vy g = gravity (config sys) * fz g + rands w 2 * 0.5 \<and>
      vx g = (rands w 3 - 0.5) * 0.5 \<and> alpha g = 1.0 \<and> meltAlpha g = 1.0 \<and>
      \<not> landed g \<and> stackOffset g = rands w 4 * 4"
    by (simp add: assms(2) init_flake_True)
  from melt bottom r2 fields new_spawn_ranges [OF assms(1), of sys]
  show ?thesis unfolding assms(2) by simp
qed

theorem respawn_is_new_spawn_witness:
  "unit_rands demo_world \<and>
   landed melting_flake \<and> meltAlpha melting_flake - meltSpeed (config demo_sys) \<le> 0 \<and>
   fst (update demo_sys melting_flake demo_world) =
     \<lparr>fz = 0.55, fsize = 1.65, fx = 400, fy = -20, vy = 0.635, vx = 0,
      alpha = 1, meltAlpha = 1, landed = False, stackOffset = 2\<rparr> \<and>
   \<not> landed bottom_flake \<and>
   height demo_sys < fy (integrate demo_sys bottom_flake (clock demo_world 0)) \<and>
   fst (update demo_sys bottom_flake demo_world) =
     \<lparr>fz = 0.55, fsize = 1.65, fx = 400, fy = -20, vy = 0.635, vx = 0,
      alpha = 1, meltAlpha = 1, landed = False, stackOffset = 2\<rparr>"
proof -
  have far: "mouseRepulsionRadius (config demo_sys)
      \<le> \<bar>fx bottom_flake - fst (mouse demo_sys)\<bar>"
    by (simp add: demo_sys_def DEFAULTS_def bottom_flake_def)
  have below: "height demo_sys < fy (integrate demo_sys bottom_flake (clock demo_world 0))"
    by (simp add: integrate_far [OF far]) (simp add: demo_sys_def bottom_flake_def)
  have g: "fst (init_flake demo_sys True demo_world) =
     \<lparr>fz = 0.55, fsize = 1.65, fx = 400, fy = -20, vy = 0.635, vx = 0,
      alpha = 1, meltAlpha = 1, landed = False, stackOffset = 2\<rparr>"
    by (simp add: init_flake_True demo_sys_def DEFAULTS_def demo_world_def)
  have nocoll: "collision demo_sys h v = (h, v)" for h v
    by (simp add: collision_def collide_def demo_sys_def)
  have melted: "landed melting_flake \<and>
      meltAlpha melting_flake - meltSpeed (config demo_sys) \<le> 0"
    by (simp add: melting_flake_def demo_sys_def DEFAULTS_def)
  have nl: "\<not> landed bottom_flake" by (simp add: bottom_flake_def)
  from respawn_is_new_spawn [OF unit_rands_demo_world refl,
      where sys = demo_sys and f = melting_flake]
    respawn_is_new_spawn [OF unit_rands_demo_world refl,
      where sys = demo_sys and f = bottom_flake]
    melted nl below unit_rands_demo_world
  show ?thesis by (simp add: g nocoll)
qed

text \<open>
  C10: when a falling flake's \<^verbatim>\<open>y\<close> exceeds the bottom edge, \<^verbatim>\<open>init(true)\<close> runs in the
  middle of the update and the collision check of the same call runs on the respawned
  flake, so that the flake can be landed when the call returns; a melt-triggered
  respawn returns straight after \<^verbatim>\<open>init(true)\<close>, falling at \<open>y = -20\<close>.
\<close>

theorem bottom_respawn_then_collision:
  "(\<not> landed f \<and> height sys < fy (integrate sys f (clock w 0)) \<longrightarrow>
      update sys f w =
        collision sys (fst (init_flake sys True (snd (Date_now w))))
                      (snd (init_flake sys True (snd (Date_now w))))) \<and>
   (landed f \<and> meltAlpha f - meltSpeed (config sys) \<le> 0 \<longrightarrow>
      update sys f w = init_flake sys True w \<and>
      \<not> landed (fst (update sys f w)) \<and> fy (fst (update sys f w)) = -20) \<and>
   (\<exists>sys' f' w'. unit_rands w' \<and> \<not> landed f' \<and>
      height sys' < fy (integrate sys' f' (clock w' 0)) \<and>
      landed (fst (update sys' f' w')))"
proof (intro conjI)
  show "\<not> landed f \<and> height sys < fy (integrate sys f (clock w 0)) \<longrightarrow>
      update sys f w =
        collision sys (fst (init_flake sys True (snd (Date_now w))))
                      (snd (init_flake sys True (snd (Date_now w))))"
    by (simp add: update_below_bottom)
  show "landed f \<and> meltAlpha f - meltSpeed (config sys) \<le> 0 \<longrightarrow>
      update sys f w = init_flake sys True w \<and>
      \<not> landed (fst (update sys f w)) \<and> fy (fst (update sys f w)) = -20"
    by (simp add: update_melted init_flake_True)
  show "\<exists>sys' f' w'. unit_rands w' \<and> \<not> landed f' \<and>
      height sys' < fy (integrate sys' f' (clock w' 0)) \<and>
      landed (fst (update sys' f' w'))"
    using bottom_flake_lands unit_rands_demo_world by blast
qed

theorem bottom_respawn_then_collision_witness:
  "\<not> landed bottom_flake \<and>
   height header_sys < fy (integrate header_sys bottom_flake (clock demo_world 0)) \<and>
   update header_sys bottom_flake demo_world =
     collision header_sys (fst (init_flake header_sys True (snd (Date_now demo_world))))
                          (snd (init_flake header_sys True (snd (Date_now demo_world)))) \<and>
   landed (fst (update header_sys bottom_flake demo_world)) \<and>
   fy (fst (update header_sys bottom_flake demo_world)) = -23.825 \<and>
   landed melting_flake \<and> meltAlpha melting_flake - meltSpeed (config header_sys) \<le> 0 \<and>
   update header_sys melting_flake demo_world = init_flake header_sys True demo_world \<and>
   \<not> landed (fst (update header_sys melting_flake demo_world)) \<and>
   fy (fst (update header_sys melting_flake demo_world)) = -20"
proof -
  have melted: "landed melting_flake \<and>
      meltAlpha melting_flake - meltSpeed (config header_sys) \<le> 0"
    by (simp add: melting_flake_def header_sys_def demo_sys_def DEFAULTS_def)
  from bottom_respawn_then_collision [of bottom_flake header_sys demo_world]
    bottom_respawn_then_collision [of melting_flake header_sys demo_world]
    bottom_flake_lands melted
  show ?thesis by (simp add: init_flake_True)
qed

section \<open>Mouse interaction switched off\<close>

lemma update_mouse_disabled:
  "\<not> mouseInteraction (config sys) \<Longrightarrow>
   update (sys\<lparr>mouse := m1\<rparr>) f w = update (sys\<lparr>mouse := m2\<rparr>) f w"
  by (simp add: update_def integrate_def mouse_interaction_def movement_def wrapping_def
      wrap_x_def collision_def init_flake_def Let_def split_def)

lemma update_all_mouse_disabled:
  "\<not> mouseInteraction (config sys) \<Longrightarrow>
   update_all (sys\<lparr>mouse := m1\<rparr>) fs w = update_all (sys\<lparr>mouse := m2\<rparr>) fs w"
  by (induction fs arbitrary: w) (simp_all add: update_mouse_disabled [of sys m1 _ _ m2])

text \<open>
  C8: with \<^verbatim>\<open>mouseInteraction = false\<close> the repulsion adds nothing to the frame's
  displacement, and two updates that differ only in the pointer position return the
  same flake (and leave the random source and the clock in the same state), for one
  flake and for a whole frame.
\<close>

theorem pointer_ignored_when_disabled:
  assumes "\<not> mouseInteraction (config sys)"
  shows "mouse_interaction (sys\<lparr>mouse := m1\<rparr>) f d = d \<and>
         update (sys\<lparr>mouse := m1\<rparr>) f w = update (sys\<lparr>mouse := m2\<rparr>) f w \<and>
         update_all (sys\<lparr>mouse := m1\<rparr>) fs w = update_all (sys\<lparr>mouse := m2\<rparr>) fs w"
  using assms update_mouse_disabled [of sys m1 f w m2]
    update_all_mouse_disabled [of sys m1 fs w m2]
  by (simp add: mouse_interaction_disabled)

theorem pointer_ignored_when_disabled_witness:
  "\<not> mouseInteraction (config quiet_sys) \<and>
   mouse_interaction (quiet_sys\<lparr>mouse := (101, 599)\<rparr>) bottom_flake (1, 2) = (1, 2) \<and>
   update (quiet_sys\<lparr>mouse := (101, 599)\<rparr>) bottom_flake demo_world =
     update (quiet_sys\<lparr>mouse := (-999, -999)\<rparr>) bottom_flake demo_world \<and>
   update_all (quiet_sys\<lparr>mouse := (101, 599)\<rparr>) [bottom_flake, melting_flake] demo_world =
     update_all (quiet_sys\<lparr>mouse := (-999, -999)\<rparr>) [bottom_flake, melting_flake] demo_world"
proof -
  have off: "\<not> mouseInteraction (config quiet_sys)"
    by (simp add: quiet_sys_def demo_sys_def DEFAULTS_def)
  from pointer_ignored_when_disabled [OF off, of "(101, 599)" bottom_flake "(1, 2)"
      demo_world "(-999, -999)" "[bottom_flake, melting_flake]"] off
  show ?thesis by (simp del: update_all.simps)
qed

section \<open>The collision loop\<close>

lemma collide_Nil: "collide conf [] f w = (f, w)"
  by (simp add: collide_def)

lemma collide_Cons:
  "collide conf (obs # obss) f w =
     collide conf obss (fst (collision_step conf (f, w) obs)) (snd (collision_step conf (f, w) obs))"
  by (simp add: collide_def)





text \<open>A pass of the loop body changes at most \<^verbatim>\<open>y\<close> and \<^verbatim>\<open>landed\<close>.\<close>

lemma collision_step_frame:
  "\<exists>a b. fst (collision_step conf (f, w) obs) = f\<lparr>fy := a, landed := b\<rparr>"
proof (cases "fst (collision_step conf (f, w) obs) = f")
  case True
  then have "fst (collision_step conf (f, w) obs) = f\<lparr>fy := fy f, landed := landed f\<rparr>"
    by simp
  then show ?thesis by blast
next
  case False
  then have "fst (collision_step conf (f, w) obs) = f\<lparr>fy := landY obs f, landed := True\<rparr>"
    by (simp add: collision_step_def split_def Let_def split: if_splits)
  then show ?thesis by blast
qed

lemma collide_frame:
  "\<exists>a b. fst (collide conf obss f w) = f\<lparr>fy := a, landed := b\<rparr>"
proof (induction obss arbitrary: f w)
  case Nil
  have "fst (collide conf [] f w) = f\<lparr>fy := fy f, landed := landed f\<rparr>"
    by (simp add: collide_Nil)
  then show ?case by blast
next
  case (Cons obs obss)
  obtain a b where s: "fst (collision_step conf (f, w) obs) = f\<lparr>fy := a, landed := b\<rparr>"
    using collision_step_frame by blast
  obtain a' b' where
    "fst (collide conf obss (f\<lparr>fy := a, landed := b\<rparr>) (snd (collision_step conf (f, w) obs)))
       = f\<lparr>fy := a, landed := b\<rparr>\<lparr>fy := a', landed := b'\<rparr>"
    using Cons.IH by blast
  then have "fst (collide conf (obs # obss) f w) = f\<lparr>fy := a', landed := b'\<rparr>"
    by (simp add: collide_Cons s)
  then show ?case by blast
qed

lemma unit_rands_collision_step:
  "unit_rands w \<Longrightarrow> unit_rands (snd (collision_step conf (f, w) obs))"
  by (simp add: collision_step_def split_def Let_def unit_rands_Math_random)

lemma unit_rands_collide: "unit_rands w \<Longrightarrow> unit_rands (snd (collide conf obss f w))"
  by (induction obss arbitrary: f w)
     (simp_all add: collide_Nil collide_Cons unit_rands_collision_step)

lemma in_span_frame [simp]: "in_span obs (f\<lparr>fy := a, landed := b\<rparr>) = in_span obs f"
  by (simp add: in_span_def)

lemma landY_frame [simp]: "landY obs (f\<lparr>fy := a, landed := b\<rparr>) = landY obs f"
  by (simp add: landY_def)


















section \<open>Landing with full stickiness\<close>

lemma fz_integrate: "fz (integrate sys f now) = fz f"
  by (simp add: integrate_def split_def Let_def)

lemma fz_wrap_x: "fz (wrap_x sys f) = fz f"
  by (simp add: wrap_x_def Let_def)

lemma update_falling:
  "\<not> landed f \<Longrightarrow> fy (integrate sys f (clock w 0)) \<le> height sys \<Longrightarrow>
   update sys f w =
     collision sys (wrap_x sys (integrate sys f (clock w 0))) (snd (Date_now w))"
  by (simp add: update_def wrapping_def fy_wrap_x Let_def split_def) (simp add: Date_now_def)


lemma wrap_x_right:
  "width sys + 5 < fx g \<Longrightarrow> 0 \<le> width sys \<Longrightarrow> wrap_x sys g = g\<lparr>fx := -5\<rparr>"
  by (simp add: wrap_x_def Let_def)









section \<open>The first population\<close>

declare spawn_loop.simps [simp del]

lemma skip_0: "skip 0 w = w"
  by (simp add: skip_def)

lemma skip_skip: "skip m (skip n w) = skip (n + m) w"
  by (simp add: skip_def ac_simps)

lemma unit_rands_skip: "unit_rands w \<Longrightarrow> unit_rands (skip n w)"
  by (simp add: unit_rands_def skip_def)

lemma snd_init_flake_False: "snd (init_flake sys False w) = skip 6 w"
  by (simp add: init_flake_False skip_def)

text \<open>The loop in closed form: one \<^verbatim>\<open>init(false)\<close> per index, each taking six draws.\<close>

lemma spawn_loop_closed:
  "spawn_loop sys i fs w =
     (fs @ map (\<lambda>k. fst (init_flake sys False (skip (6 * k) w)))
             [0..<nat (flakeCount (config sys) - i)],
      skip (6 * nat (flakeCount (config sys) - i)) w)"
proof (induction sys i fs w rule: spawn_loop.induct)
  case (1 sys i fs w)
  show ?case
  proof (cases "i < flakeCount (config sys)")
    case False
    then show ?thesis by (simp add: spawn_loop.simps [of sys i] skip_0)
  next
    case True
    let ?n = "nat (flakeCount (config sys) - (i + 1))"
    have n: "nat (flakeCount (config sys) - i) = Suc ?n"
      using True by simp
    have IH: "spawn_loop sys (i + 1) (fs @ [fst (init_flake sys False w)]) (skip 6 w) =
       ((fs @ [fst (init_flake sys False w)]) @
          map (\<lambda>k. fst (init_flake sys False (skip (6 * k) (skip 6 w)))) [0..<?n],
        skip (6 * ?n) (skip 6 w))"
    proof -
      have pr: "(fst (init_flake sys False w), skip 6 w) = init_flake sys False w"
        by (simp add: prod_eq_iff snd_init_flake_False)
      from "1.IH" [OF True pr] show ?thesis by simp
    qed
    have m: "map (\<lambda>k. fst (init_flake sys False (skip (6 * k) w))) [0..<Suc ?n] =
        fst (init_flake sys False w) #
        map (\<lambda>k. fst (init_flake sys False (skip (6 * k) (skip 6 w)))) [0..<?n]"
      by (simp add: upt_conv_Cons map_Suc_upt [symmetric] skip_skip skip_0 add.commute
          del: upt_Suc)
    have sk: "skip (6 * ?n) (skip 6 w) = skip (6 * Suc ?n) w"
      by (simp add: skip_skip)
    have "spawn_loop sys i fs w =
        spawn_loop sys (i + 1) (fs @ [fst (init_flake sys False w)]) (skip 6 w)"
      using True
      by (simp add: spawn_loop.simps [of sys i] split_def snd_init_flake_False)
    also note IH
    finally show ?thesis
      unfolding n m sk by simp
  qed
qed







section \<open>Invariants of a run\<close>

lemma fsize_integrate: "fsize (integrate sys f now) = fsize f"
  by (simp add: integrate_def split_def Let_def)

lemma fsize_wrap_x: "fsize (wrap_x sys f) = fsize f"
  by (simp add: wrap_x_def Let_def)

lemma collision_frame: "\<exists>a b. fst (collision sys f w) = f\<lparr>fy := a, landed := b\<rparr>"
proof (cases "fz f > 0.4")
  case True
  then show ?thesis using collide_frame [of "config sys" "obstacles sys" f w]
    by (simp add: collision_def)
next
  case False
  then have "fst (collision sys f w) = f\<lparr>fy := fy f, landed := landed f\<rparr>"
    by (simp add: collision_def)
  then show ?thesis by blast
qed

lemma fz_collision: "fz (fst (collision sys f w)) = fz f"
  using collision_frame [of sys f w] by auto

lemma fsize_collision: "fsize (fst (collision sys f w)) = fsize f"
  using collision_frame [of sys f w] by auto


lemma unit_rands_collision: "unit_rands w \<Longrightarrow> unit_rands (snd (collision sys f w))"
  by (simp add: collision_def unit_rands_collide)

lemma unit_rands_wrapping: "unit_rands w \<Longrightarrow> unit_rands (snd (wrapping sys f w))"
  by (simp add: wrapping_def Let_def unit_rands_init_flake)

lemma unit_rands_update: "unit_rands w \<Longrightarrow> unit_rands (snd (update sys f w))"
  by (simp add: update_def Let_def split_def unit_rands_init_flake unit_rands_collision
      unit_rands_wrapping unit_rands_Date_now)

text \<open>What an update does to \<^verbatim>\<open>z\<close> and \<^verbatim>\<open>size\<close>: nothing, or both are those of the new
  spawn of a respawn.\<close>

lemma update_z_size:
  "(fz (fst (update sys f w)) = fz f \<and> fsize (fst (update sys f w)) = fsize f) \<or>
   ((landed f \<and> meltAlpha f - meltSpeed (config sys) \<le> 0 \<or>
     \<not> landed f \<and> height sys < fy (integrate sys f (clock w 0))) \<and>
    fz (fst (update sys f w)) = rands w 0 * 0.9 + 0.1 \<and>
    fsize (fst (update sys f w)) = sizeBase (config sys) * fz (fst (update sys f w)))"
proof (cases "landed f")
  case True
  show ?thesis
  proof (cases "meltAlpha f - meltSpeed (config sys) \<le> 0")
    case True
    with \<open>landed f\<close> show ?thesis by (simp add: update_melted init_flake_True)
  next
    case False
    with \<open>landed f\<close> show ?thesis by (simp add: update_def Let_def)
  qed
next
  case False
  show ?thesis
  proof (cases "height sys < fy (integrate sys f (clock w 0))")
    case True
    with False show ?thesis
      by (simp add: update_below_bottom fz_collision fsize_collision init_flake_Date_now
          init_flake_True)
  next
    case False
    with \<open>\<not> landed f\<close> show ?thesis
      by (simp add: update_falling fz_collision fsize_collision fz_wrap_x fsize_wrap_x
          fz_integrate fsize_integrate)
  qed
qed

lemma update_depth_ok:
  assumes "unit_rands w" and "depth_ok (config sys) f"
  shows "depth_ok (config sys) (fst (update sys f w))"
proof -
  have r: "0 \<le> rands w 0" "rands w 0 < 1"
    using assms(1) by (simp_all add: unit_rands_def)
  from update_z_size [of sys f w] show ?thesis
  proof
    assume "fz (fst (update sys f w)) = fz f \<and> fsize (fst (update sys f w)) = fsize f"
    with assms(2) show ?thesis by (simp add: depth_ok_def)
  next
    assume "(landed f \<and> meltAlpha f - meltSpeed (config sys) \<le> 0 \<or>
        \<not> landed f \<and> height sys < fy (integrate sys f (clock w 0))) \<and>
      fz (fst (update sys f w)) = rands w 0 * 0.9 + 0.1 \<and>
      fsize (fst (update sys f w)) = sizeBase (config sys) * fz (fst (update sys f w))"
    with r show ?thesis by (simp add: depth_ok_def)
  qed
qed

lemma update_all_Cons:
  "update_all sys (f # fs) w =
     (fst (update sys f w) # fst (update_all sys fs (snd (update sys f w))),
      snd (update_all sys fs (snd (update sys f w))))"
  by (simp add: split_def Let_def)

lemma unit_rands_update_all: "unit_rands w \<Longrightarrow> unit_rands (snd (update_all sys fs w))"
  by (induction fs arbitrary: w) (simp_all add: update_all_Cons unit_rands_update del: update_all.simps(2))

lemma length_update_all: "length (fst (update_all sys fs w)) = length fs"
  by (induction fs arbitrary: w) (simp_all add: update_all_Cons del: update_all.simps(2))

text \<open>A property of flakes that every update keeps is kept by a frame.\<close>

lemma update_all_keeps:
  assumes "\<And>f v. unit_rands v \<Longrightarrow> P f \<Longrightarrow> P (fst (update sys f v))"
  shows "unit_rands w \<Longrightarrow> \<forall>f \<in> set fs. P f \<Longrightarrow> \<forall>f \<in> set (fst (update_all sys fs w)). P f"
proof (induction fs arbitrary: w)
  case Nil
  then show ?case by simp
next
  case (Cons f fs)
  have "P (fst (update sys f w))"
    using assms Cons.prems by simp
  moreover have "\<forall>g \<in> set (fst (update_all sys fs (snd (update sys f w)))). P g"
    using Cons.IH [of "snd (update sys f w)"] Cons.prems by (simp add: unit_rands_update)
  ultimately show ?case
    by (simp add: update_all_Cons del: update_all.simps(2))
qed

lemma loop_eq:
  "loop sys w = (sys\<lparr>flakes := fst (update_all sys (flakes sys) w)\<rparr>,
                 snd (update_all sys (flakes sys) w))"
  by (simp add: loop_def split_def Let_def)

lemma spawnFlakes_eq:
  "spawnFlakes sys w =
     (sys\<lparr>flakes := map (\<lambda>k. fst (init_flake sys False (skip (6 * k) w)))
                        [0..<nat (flakeCount (config sys))]\<rparr>,
      skip (6 * nat (flakeCount (config sys))) w)"
  by (simp add: spawnFlakes_def spawn_loop_closed)

lemma updateObstacles_fields:
  "config (updateObstacles sys pg) = config sys"
  "flakes (updateObstacles sys pg) = flakes sys"
  "width (updateObstacles sys pg) = width sys"
  "height (updateObstacles sys pg) = height sys"
  "mouse (updateObstacles sys pg) = mouse sys"
  "isRunning (updateObstacles sys pg) = isRunning sys"
  by (simp_all add: updateObstacles_def Let_def)

lemma resize_fields:
  "config (resize sys pg) = config sys"
  "flakes (resize sys pg) = flakes sys"
  "width (resize sys pg) = innerWidth pg"
  "height (resize sys pg) = innerHeight pg"
  "mouse (resize sys pg) = mouse sys"
  "isRunning (resize sys pg) = isRunning sys"
  by (simp_all add: resize_def Let_def updateObstacles_fields)

text \<open>The system that \<^verbatim>\<open>init\<close> hands to \<^verbatim>\<open>spawnFlakes\<close>.\<close>

lemma SnowSystem_init_eq:
  "\<not> isRunning sys \<Longrightarrow>
   SnowSystem_init sys opts pg w =
     (let s4 = resize (bindEvents (createCanvas (sys\<lparr>config := merge_config DEFAULTS opts\<rparr>))) pg;
          s5 = fst (spawnFlakes s4 w);
          w1 = snd (spawnFlakes s4 w)
      in ((fst (loop s5 w1))\<lparr>isRunning := True\<rparr>, snd (loop s5 w1)))"
  by (simp add: SnowSystem_init_def Let_def split_def)

lemma prepared_fields:
  "config (resize (bindEvents (createCanvas (sys\<lparr>config := c\<rparr>))) pg) = c"
  "width (resize (bindEvents (createCanvas (sys\<lparr>config := c\<rparr>))) pg) = innerWidth pg"
  "height (resize (bindEvents (createCanvas (sys\<lparr>config := c\<rparr>))) pg) = innerHeight pg"
  "mouse (resize (bindEvents (createCanvas (sys\<lparr>config := c\<rparr>))) pg) = mouse sys"
  by (simp_all add: resize_fields bindEvents_def createCanvas_def Let_def)

lemma start_running_same:
  "isRunning sys \<Longrightarrow> SnowSystem_init sys opts pg w = (sys, w)"
  by (simp add: SnowSystem_init_def)

lemma init_depth_ok:
  assumes "unit_rands w"
  shows "depth_ok (config sys) (fst (init_flake sys isNew w))"
proof -
  have "0 \<le> rands w 0" "rands w 0 < 1"
    using assms by (simp_all add: unit_rands_def)
  then show ?thesis
    by (cases isNew) (simp_all add: init_flake_True init_flake_False depth_ok_def)
qed

lemma spawnFlakes_keeps:
  assumes "\<And>v. unit_rands v \<Longrightarrow> P (fst (init_flake sys False v))" and "unit_rands w"
  shows "\<forall>f \<in> set (flakes (fst (spawnFlakes sys w))). P f"
  using assms by (auto simp add: spawnFlakes_eq unit_rands_skip)

lemma unit_rands_spawnFlakes: "unit_rands w \<Longrightarrow> unit_rands (snd (spawnFlakes sys w))"
  by (simp add: spawnFlakes_eq unit_rands_skip)

lemma unit_rands_loop: "unit_rands w \<Longrightarrow> unit_rands (snd (loop sys w))"
  by (simp add: loop_eq unit_rands_update_all)

lemma unit_rands_SnowSystem_init:
  "unit_rands w \<Longrightarrow> unit_rands (snd (SnowSystem_init sys opts pg w))"
  by (cases "isRunning sys")
     (simp_all add: SnowSystem_init_eq Let_def unit_rands_loop unit_rands_spawnFlakes
        start_running_same)

lemma dispatch_eq:
  "dispatch s e =
     (case e of
        Init opts pg \<Rightarrow> SnowSystem_init (fst s) opts pg (snd s)
      | Frame \<Rightarrow> (if isRunning (fst s) then loop (fst s) (snd s) else s)
      | Resize pg \<Rightarrow> (if resizeListener (fst s) then (resize (fst s) pg, snd s) else s)
      | Scroll pg \<Rightarrow>
          (if scrollListener (fst s) then (updateObstacles (fst s) pg, snd s) else s)
      | MouseMove clientX clientY \<Rightarrow>
          (if mousemoveListener (fst s) then ((fst s)\<lparr>mouse := (clientX, clientY)\<rparr>, snd s)
           else s))"
  by (cases s; cases e) simp_all

lemma unit_rands_dispatch: "unit_rands (snd s) \<Longrightarrow> unit_rands (snd (dispatch s e))"
  by (cases e)
     (simp_all add: dispatch_eq unit_rands_SnowSystem_init unit_rands_loop)

lemma run_snoc: "run (evs @ [e]) w = dispatch (run evs w) e"
  by (simp add: run_def)

lemma unit_rands_run: "unit_rands w \<Longrightarrow> unit_rands (snd (run evs w))"
  by (induction evs rule: rev_induct) (simp_all add: run_snoc unit_rands_dispatch, simp add: run_def)

lemma loop_depth_ok:
  assumes "unit_rands w" and "\<forall>f \<in> set (flakes sys). depth_ok (config sys) f"
  shows "\<forall>f \<in> set (flakes (fst (loop sys w))). depth_ok (config (fst (loop sys w))) f"
proof -
  have "\<forall>f \<in> set (fst (update_all sys (flakes sys) w)). depth_ok (config sys) f"
    using assms
    by (intro update_all_keeps [where P = "depth_ok (config sys)"])
       (simp_all add: update_depth_ok)
  then show ?thesis by (simp add: loop_eq)
qed

lemma init_flakes_depth_ok:
  assumes "unit_rands w" and "\<forall>f \<in> set (flakes sys). depth_ok (config sys) f"
  shows "\<forall>f \<in> set (flakes (fst (SnowSystem_init sys opts pg w))).
           depth_ok (config (fst (SnowSystem_init sys opts pg w))) f"
proof (cases "isRunning sys")
  case True
  with assms show ?thesis by (simp add: start_running_same)
next
  case False
  let ?c = "merge_config DEFAULTS opts"
  let ?s4 = "resize (bindEvents (createCanvas (sys\<lparr>config := ?c\<rparr>))) pg"
  let ?s5 = "fst (spawnFlakes ?s4 w)"
  have c5: "config ?s5 = ?c"
    by (simp add: spawnFlakes_eq prepared_fields)
  have "\<forall>f \<in> set (flakes ?s5). depth_ok (config ?s4) f"
    using assms(1)
    by (intro spawnFlakes_keeps [where P = "depth_ok (config ?s4)"])
       (simp_all add: init_depth_ok)
  then have "\<forall>f \<in> set (flakes ?s5). depth_ok (config ?s5) f"
    by (simp add: c5 prepared_fields)
  from loop_depth_ok [OF unit_rands_spawnFlakes [OF assms(1)] this]
  show ?thesis using False
    by (simp add: SnowSystem_init_eq Let_def)
qed

lemma dispatch_depth_ok:
  assumes "unit_rands (snd s)" and "\<forall>f \<in> set (flakes (fst s)). depth_ok (config (fst s)) f"
  shows "\<forall>f \<in> set (flakes (fst (dispatch s e))). depth_ok (config (fst (dispatch s e))) f"
  using assms
  by (cases e)
     (simp_all add: dispatch_eq init_flakes_depth_ok loop_depth_ok resize_fields
        updateObstacles_fields)

lemma run_depth_ok:
  "unit_rands w \<Longrightarrow>
   \<forall>f \<in> set (flakes (fst (run evs w))). depth_ok (config (fst (run evs w))) f"
proof (induction evs rule: rev_induct)
  case Nil
  show ?case by (simp add: run_def SnowSystem_new_def)
next
  case (snoc e evs)
  then show ?case
    by (simp add: run_snoc dispatch_depth_ok unit_rands_run)
qed

lemma length_flakes_SnowSystem_init:
  "\<not> isRunning sys \<Longrightarrow>
   length (flakes (fst (SnowSystem_init sys opts pg w))) =
     nat (flakeCount (merge_config DEFAULTS opts))"
  by (simp add: SnowSystem_init_eq Let_def loop_eq length_update_all spawnFlakes_eq
      prepared_fields)

lemma first_frames:
  "length (flakes (fst (run [Init one_flake demo_page, Frame] demo_world))) = 1 \<and>
   config (fst (run [Init one_flake demo_page, Frame] demo_world)) =
     DEFAULTS\<lparr>flakeCount := 1\<rparr>"
proof -
  let ?s = "SnowSystem_init SnowSystem_new one_flake demo_page demo_world"
  have n: "\<not> isRunning SnowSystem_new" by (simp add: SnowSystem_new_def)
  have m: "merge_config DEFAULTS one_flake = DEFAULTS\<lparr>flakeCount := 1\<rparr>"
    by (simp add: merge_config_def one_flake_def no_options_def DEFAULTS_def)
  have r: "run [Init one_flake demo_page, Frame] demo_world = loop (fst ?s) (snd ?s)"
    by (simp add: run_def dispatch_eq isRunning_SnowSystem_init)
  have l: "length (flakes (fst ?s)) = 1"
    by (simp add: length_flakes_SnowSystem_init [OF n] m)
  have c: "config (fst ?s) = DEFAULTS\<lparr>flakeCount := 1\<rparr>"
    by (simp add: SnowSystem_init_eq [OF n] Let_def loop_eq spawnFlakes_eq prepared_fields m)
  show ?thesis by (simp add: r loop_eq length_update_all l c)
qed

text \<open>
  C7: in every state that the system reaches from its construction, by any sequence of
  \<^verbatim>\<open>init\<close> calls, animation frames and window events, every flake has
  \<open>0.1 \<le> z < 1\<close> and \<open>size = sizeBase * z\<close>. An update leaves \<^verbatim>\<open>z\<close> and \<^verbatim>\<open>size\<close> as
  they are, or it is a respawn and assigns both, \<^verbatim>\<open>z\<close> from the next draw and
  \<^verbatim>\<open>size\<close> as \<open>sizeBase * z\<close>.
\<close>

theorem depth_and_size_invariant:
  assumes "unit_rands w"
  shows "(\<forall>f \<in> set (flakes (fst (run evs w))).
            0.1 \<le> fz f \<and> fz f < 1.0 \<and>
            fsize f = sizeBase (config (fst (run evs w))) * fz f) \<and>
         ((fz (fst (update sys f w)) = fz f \<and> fsize (fst (update sys f w)) = fsize f) \<or>
          ((landed f \<and> meltAlpha f - meltSpeed (config sys) \<le> 0 \<or>
            \<not> landed f \<and> height sys < fy (integrate sys f (clock w 0))) \<and>
           fz (fst (update sys f w)) = rands w 0 * 0.9 + 0.1 \<and>
           fsize (fst (update sys f w)) = sizeBase (config sys) * fz (fst (update sys f w))))"
proof
  from run_depth_ok [OF assms, of evs]
  show "\<forall>f \<in> set (flakes (fst (run evs w))).
      0.1 \<le> fz f \<and> fz f < 1.0 \<and> fsize f = sizeBase (config (fst (run evs w))) * fz f"
    by (simp add: depth_ok_def)
  show "(fz (fst (update sys f w)) = fz f \<and> fsize (fst (update sys f w)) = fsize f) \<or>
      ((landed f \<and> meltAlpha f - meltSpeed (config sys) \<le> 0 \<or>
        \<not> landed f \<and> height sys < fy (integrate sys f (clock w 0))) \<and>
       fz (fst (update sys f w)) = rands w 0 * 0.9 + 0.1 \<and>
       fsize (fst (update sys f w)) = sizeBase (config sys) * fz (fst (update sys f w)))"
    by (rule update_z_size)
qed

theorem depth_and_size_invariant_witness:
  "unit_rands demo_world \<and>
   length (flakes (fst (run [Init one_flake demo_page, Frame] demo_world))) = 1 \<and>
   0.1 \<le> fz (hd (flakes (fst (run [Init one_flake demo_page, Frame] demo_world)))) \<and>
   fz (hd (flakes (fst (run [Init one_flake demo_page, Frame] demo_world)))) < 1 \<and>
   fsize (hd (flakes (fst (run [Init one_flake demo_page, Frame] demo_world)))) =
     3 * fz (hd (flakes (fst (run [Init one_flake demo_page, Frame] demo_world))))"
proof -
  let ?fs = "flakes (fst (run [Init one_flake demo_page, Frame] demo_world))"
  have len: "length ?fs = 1" using first_frames by blast
  then have "?fs \<noteq> []" by auto
  then have m: "hd ?fs \<in> set ?fs" by simp
  have sb: "sizeBase (config (fst (run [Init one_flake demo_page, Frame] demo_world))) = 3"
    using first_frames by (simp add: DEFAULTS_def)
  from depth_and_size_invariant [OF unit_rands_demo_world,
      of "[Init one_flake demo_page, Frame]" demo_sys melting_flake]
  have "\<forall>f \<in> set ?fs. 0.1 \<le> fz f \<and> fz f < 1.0 \<and>
      fsize f = sizeBase (config (fst (run [Init one_flake demo_page, Frame] demo_world))) * fz f"
    by (rule conjunct1)
  from this [rule_format, OF m] len unit_rands_demo_world show ?thesis
    by (simp only: sb) simp
qed

section \<open>The mouse at its initial position\<close>















end
